theory Spec2Isabelle
  imports Main
begin

section \<open>Serial Studio: the frame builder (app/src/JSON/FrameBuilder.cpp)\<close>

text \<open>
  A shallow embedding of \<^verbatim>\<open>JSON::FrameBuilder\<close>. The class is a singleton with
  mutable members; every method becomes a function from the state before the call to the
  state after it. Signals, message boxes and warnings are appended to a trace held in the
  state, so that "nothing is published" is a statement about that trace.
\<close>

subsection \<open>Qt values\<close>

type_synonym QByteArray = string
type_synonym QString = string
type_synonym QStringList = "QString list"

text \<open>
  \<^verbatim>\<open>QByteArray::split(char)\<close> and \<^verbatim>\<open>QString::split(QChar)\<close> (empty parts kept): the
  pieces between the separators; a sequence with no separator, the empty one included,
  gives a single piece.
\<close>

fun split_when :: "(char \<Rightarrow> bool) \<Rightarrow> string \<Rightarrow> string list" where
  "split_when sep [] = [[]]"
| "split_when sep (c # cs) =
     (if sep c then [] # split_when sep cs
      else (case split_when sep cs of
              [] \<Rightarrow> [[c]]
            | w # ws \<Rightarrow> (c # w) # ws))"

definition split :: "char \<Rightarrow> string \<Rightarrow> string list" where
  "split sep s = split_when (\<lambda>c. c = sep) s"

text \<open>
  \<^verbatim>\<open>isspace\<close> in the C locale: space, tabulation, line feed, vertical tabulation, form
  feed and carriage return.
\<close>

definition isspace :: "char \<Rightarrow> bool" where
  "isspace c = (c = CHR '' '' \<or> c = CHR 0x09 \<or> c = CHR 0x0A \<or> c = CHR 0x0B
                \<or> c = CHR 0x0C \<or> c = CHR 0x0D)"

fun join_space :: "string list \<Rightarrow> string" where
  "join_space [] = []"
| "join_space [w] = w"
| "join_space (w # v # ws) = w @ CHR '' '' # join_space (v # ws)"

text \<open>
  \<^verbatim>\<open>QByteArray::simplified()\<close>: spacing characters are removed from both ends and every
  internal run of them becomes one space.
\<close>

definition simplified :: "QByteArray \<Rightarrow> QByteArray" where
  "simplified s = join_space (filter (\<lambda>w. w \<noteq> []) (split_when isspace s))"

text \<open>\<^verbatim>\<open>QString::number(int)\<close>, which \<^verbatim>\<open>QString::arg(int)\<close> substitutes for \<^verbatim>\<open>%1\<close>.\<close>

definition digit :: "nat \<Rightarrow> char" where
  "digit d = ''0123456789'' ! d"

function number_nat :: "nat \<Rightarrow> string" where
  "number_nat n = (if n < 10 then [digit n] else number_nat (n div 10) @ [digit (n mod 10)])"
  by pat_completeness auto
termination
  by (relation "measure id") auto

declare number_nat.simps [simp del]

definition QString_number :: "int \<Rightarrow> QString" where
  "QString_number i = (if i < 0 then CHR ''-'' # number_nat (nat (- i)) else number_nat (nat i))"

text \<open>
  A JSON document as \<^verbatim>\<open>QJsonDocument\<close> shows it to the frame builder: null (what a
  failed parse returns), an array, or an object. The type \<open>'v\<close> of the values is left
  open: the frame builder never looks inside one.
\<close>

type_synonym 'v QJsonObject = "(QString \<times> 'v) list"

datatype 'v QJsonDocument =
    NullDocument
  | ArrayDocument "'v list"
  | ObjectDocument "'v QJsonObject"

text \<open>\<^verbatim>\<open>QJsonDocument::object()\<close>: the empty object unless the document holds an object.\<close>

fun object :: "'v QJsonDocument \<Rightarrow> 'v QJsonObject" where
  "object (ObjectDocument obj) = obj"
| "object _ = []"

subsection \<open>The frame model\<close>

text \<open>
  Modelled from the spec: the classes \<^verbatim>\<open>JSON::Dataset\<close>, \<^verbatim>\<open>JSON::Group\<close> and
  \<^verbatim>\<open>JSON::Frame\<close> are declared in headers that are not part of the source at hand.
  The records hold the members that FrameBuilder.cpp reads or writes and the fields of
  the data model (section 3 of the specification). Field names follow the members; the
  suffixes \<open>_g\<close> and \<open>_f\<close> tell the members of a group and of a frame from the members
  of the same name of a dataset.
\<close>

record Dataset =
  m_groupId :: int
  m_index :: int
  m_title :: QString
  m_value :: QString
  m_widget :: QString
  m_graph :: bool
  m_displayInOverview :: bool

record Group =
  m_groupId_g :: int
  m_title_g :: QString
  m_widget_g :: QString
  m_datasets :: "Dataset list"

record Frame =
  m_title_f :: QString
  m_groups :: "Group list"
  m_frameStart :: QByteArray
  m_frameEnd :: QByteArray

text \<open>
  Modelled from the spec: a default-constructed dataset (\<^verbatim>\<open>JSON::Dataset dataset;\<close>):
  index 0 is "unassigned", no text, not graphed, not shown in the overview.
\<close>

definition Dataset_new :: Dataset where
  "Dataset_new = \<lparr>m_groupId = 0, m_index = 0, m_title = [], m_value = [], m_widget = [],
                  m_graph = False, m_displayInOverview = False\<rparr>"

text \<open>Modelled from the spec: \<^verbatim>\<open>JSON::Group group(id)\<close>, a group with an id and nothing else.\<close>

definition Group_new :: "int \<Rightarrow> Group" where
  "Group_new gid = \<lparr>m_groupId_g = gid, m_title_g = [], m_widget_g = [], m_datasets = []\<rparr>"

text \<open>
  Modelled from the spec: the empty frame, which a default-constructed frame is and which
  \<^verbatim>\<open>Frame::clear()\<close> leaves ("clears its held Frame (sets it to empty)").
\<close>

definition Frame_empty :: Frame where
  "Frame_empty = \<lparr>m_title_f = [], m_groups = [], m_frameStart = [], m_frameEnd = []\<rparr>"

subsection \<open>Enumerations\<close>

text \<open>
  \<^verbatim>\<open>SerialStudio::OperationMode\<close>. The constructor of the frame builder casts a stored
  integer to the enumeration, and \<^verbatim>\<open>setOperationMode\<close> has a \<^verbatim>\<open>default\<close> branch for
  the values that are none of the three enumerators: \<open>InvalidMode\<close> stands for those.
\<close>

datatype OperationMode = ProjectFile | DeviceSendsJSON | QuickPlot | InvalidMode int

text \<open>
  \<^verbatim>\<open>SerialStudio::DecoderMethod\<close>; \<open>OtherMethod\<close> is the \<^verbatim>\<open>default\<close> branch of the
  switch in \<^verbatim>\<open>readData\<close>.
\<close>

datatype DecoderMethod = PlainText | Hexadecimal | Base64 | OtherMethod

subsection \<open>The collaborators\<close>

text \<open>
  What FrameBuilder.cpp calls and does not define is a parameter of the model:
  \<^item> \<open>fromUtf8\<close>, \<open>toHex\<close>, \<open>toBase64\<close>: \<^verbatim>\<open>QString::fromUtf8\<close>, \<^verbatim>\<open>QByteArray::toHex\<close>
    and \<^verbatim>\<open>QByteArray::toBase64\<close>;
  \<^item> \<open>fromJson\<close>: \<^verbatim>\<open>QJsonDocument::fromJson\<close>, \<open>Inl\<close> the error string of a failed
    parse (the document is then null), \<open>Inr\<close> the document;
  \<^item> \<open>Frame_read\<close>: \<^verbatim>\<open>Frame::read(object)\<close>, which rewrites the frame in place and
    returns whether the object had the shape of a frame;
  \<^item> \<open>Frame_isValid\<close>: \<^verbatim>\<open>Frame::isValid()\<close>;
  \<^item> \<open>readFile\<close>: \<^verbatim>\<open>QFile::open(QFile::ReadOnly)\<close> followed by \<^verbatim>\<open>readAll()\<close>; \<open>None\<close>
    when the file cannot be opened;
  \<^item> \<open>csvPlaying\<close>: \<^verbatim>\<open>CSV::Player::instance().isOpen()\<close>;
  \<^item> \<open>decoderMethod\<close>: \<^verbatim>\<open>JSON::ProjectModel::instance().decoderMethod()\<close>.
\<close>

record 'v env =
  fromUtf8 :: "QByteArray \<Rightarrow> QString"
  toHex :: "QByteArray \<Rightarrow> QByteArray"
  toBase64 :: "QByteArray \<Rightarrow> QByteArray"
  fromJson :: "QByteArray \<Rightarrow> QString + 'v QJsonDocument"
  Frame_read :: "Frame \<Rightarrow> 'v QJsonObject \<Rightarrow> bool \<times> Frame"
  Frame_isValid :: "Frame \<Rightarrow> bool"
  readFile :: "QString \<Rightarrow> QByteArray option"
  csvPlaying :: bool
  decoderMethod :: DecoderMethod

text \<open>The document that \<^verbatim>\<open>QJsonDocument::fromJson(data)\<close> returns: null on a parse error.\<close>

definition document :: "QString + 'v QJsonDocument \<Rightarrow> 'v QJsonDocument" where
  "document r = (case r of Inl err \<Rightarrow> NullDocument | Inr doc \<Rightarrow> doc)"

subsection \<open>The state of the frame builder\<close>

text \<open>What a \<^verbatim>\<open>QSettings\<close> key holds: a path, or the operation mode.\<close>

datatype QVariant = VString QString | VMode OperationMode

text \<open>
  What the class does to the world, in the order it does it: the signals it emits, the
  dialogs and warnings it raises, the sequences it hands to \<^verbatim>\<open>IO::Manager\<close> and the
  values it stores in the settings.
\<close>

datatype event =
    jsonFileMapChanged
  | operationModeChanged
  | frameChanged Frame
  | showMessageBox QString QString
  | qWarning QString
  | startSequenceSet QByteArray
  | finishSequenceSet QByteArray
  | settingStored QString QVariant

text \<open>
  The members of the class, the open flag and file name of \<^verbatim>\<open>m_jsonMap\<close>, the two
  sequences that \<^verbatim>\<open>IO::Manager\<close> holds, and the trace. A frame parser is a
  pointer that may be null; the parser itself is the function from the decoded text to
  the list of fields.
\<close>

record builder =
  m_opMode :: OperationMode
  m_frameParser :: "(QString \<Rightarrow> QStringList) option"
  m_frame :: Frame
  m_jsonMap_fileName :: QString
  m_jsonMap_isOpen :: bool
  m_settings :: "QString \<rightharpoonup> QVariant"
  io_startSequence :: QByteArray
  io_finishSequence :: QByteArray
  events :: "event list"

definition emit :: "event \<Rightarrow> builder \<Rightarrow> builder" where
  "emit e st = st\<lparr>events := events st @ [e]\<rparr>"

definition setStartSequence :: "QByteArray \<Rightarrow> builder \<Rightarrow> builder" where
  "setStartSequence s st = emit (startSequenceSet s) (st\<lparr>io_startSequence := s\<rparr>)"

definition setFinishSequence :: "QByteArray \<Rightarrow> builder \<Rightarrow> builder" where
  "setFinishSequence s st = emit (finishSequenceSet s) (st\<lparr>io_finishSequence := s\<rparr>)"

definition setValue :: "QString \<Rightarrow> QVariant \<Rightarrow> builder \<Rightarrow> builder" where
  "setValue key v st = emit (settingStored key v) (st\<lparr>m_settings := (m_settings st)(key \<mapsto> v)\<rparr>)"

definition setJsonPathSetting :: "QString \<Rightarrow> builder \<Rightarrow> builder" where
  "setJsonPathSetting path st = setValue ''json_map_location'' (VString path) st"

definition setFrameParser :: "(QString \<Rightarrow> QStringList) option \<Rightarrow> builder \<Rightarrow> builder" where
  "setFrameParser parser st = st\<lparr>m_frameParser := parser\<rparr>"

subsection \<open>setOperationMode\<close>

definition setOperationMode :: "OperationMode \<Rightarrow> builder \<Rightarrow> builder" where
  "setOperationMode mode st =
     (let st1 = st\<lparr>m_opMode := mode\<rparr>;
          st2 = (case mode of
                   DeviceSendsJSON \<Rightarrow> setFinishSequence [] (setStartSequence [] st1)
                 | ProjectFile \<Rightarrow>
                     setStartSequence (m_frameStart (m_frame st1))
                       (setFinishSequence (m_frameEnd (m_frame st1)) st1)
                 | QuickPlot \<Rightarrow> setFinishSequence [] (setStartSequence [] st1)
                 | InvalidMode i \<Rightarrow> emit (qWarning ''Invalid operation mode selected'') st1)
      in emit operationModeChanged (setValue ''operation_mode'' (VMode mode) st2))"

subsection \<open>loadJsonMap\<close>

text \<open>
  \<^verbatim>\<open>loadJsonMap(path)\<close>. The message boxes carry their title and text; \<^verbatim>\<open>tr\<close> is the
  identity (no translation is loaded).
\<close>

definition closePrevious :: "builder \<Rightarrow> builder" where
  "closePrevious st =
     (if m_jsonMap_isOpen st
      then emit jsonFileMapChanged (st\<lparr>m_frame := Frame_empty, m_jsonMap_isOpen := False\<rparr>)
      else st)"

definition loadFailed :: "QString \<Rightarrow> QString \<Rightarrow> builder \<Rightarrow> builder" where
  "loadFailed title text st =
     emit (showMessageBox title text)
       (setJsonPathSetting [] (st\<lparr>m_frame := Frame_empty, m_jsonMap_isOpen := False\<rparr>))"

definition loadDocument :: "'v env \<Rightarrow> QString \<Rightarrow> 'v QJsonDocument \<Rightarrow> builder \<Rightarrow> builder" where
  "loadDocument env path doc st =
     (let st1 = setJsonPathSetting path st;
          (ok, frame) = Frame_read env Frame_empty (object doc);
          st2 = st1\<lparr>m_frame := frame\<rparr>
      in if ok \<and> Frame_isValid env frame
         then (if m_opMode st2 = ProjectFile
               then setStartSequence (m_frameStart frame)
                      (setFinishSequence (m_frameEnd frame) st2)
               else st2)
         else loadFailed ''Invalid JSON project format'' [] st2)"

definition loadJsonMap :: "'v env \<Rightarrow> QString \<Rightarrow> builder \<Rightarrow> builder" where
  "loadJsonMap env path st =
     (if path = [] then st
      else
        let st1 = (closePrevious st)\<lparr>m_jsonMap_fileName := path\<rparr>;
            st2 = (case readFile env path of
                     Some data \<Rightarrow>
                       (let st3 = st1\<lparr>m_jsonMap_isOpen := True\<rparr>
                        in case fromJson env data of
                             Inl errorString \<Rightarrow> loadFailed ''JSON parse error'' errorString st3
                           | Inr doc \<Rightarrow> loadDocument env path doc st3)
                   | None \<Rightarrow>
                       (emit (showMessageBox ''Cannot read JSON file''
                                ''Please check file permissions & location'')
                          (setJsonPathSetting [] st1))\<lparr>m_jsonMap_isOpen := False\<rparr>)
        in emit jsonFileMapChanged st2)"

subsection \<open>Loops over a vector, in place\<close>

text \<open>
  \<^verbatim>\<open>for (int i = 0; i < v.count(); ++i) v[i] = f(v[i]);\<close> The loops of \<^verbatim>\<open>readData\<close>
  walk a vector by index and rewrite the element they stand on through a reference.
\<close>

function for_each_index :: "('a \<Rightarrow> 'a) \<Rightarrow> nat \<Rightarrow> 'a list \<Rightarrow> 'a list" where
  "for_each_index f i v =
     (if i < length v then for_each_index f (Suc i) (v[i := f (v ! i)]) else v)"
  by pat_completeness auto
termination
  by (relation "measure (\<lambda>(f, i, v). length v - i)") auto

declare for_each_index.simps [simp del]

subsection \<open>readData: the project-file mode\<close>

text \<open>
  The list \<^verbatim>\<open>fields\<close> of the source is \<open>flds\<close> and a \<^verbatim>\<open>group\<close> is \<open>grp\<close>: the
  two names are taken in HOL.
\<close>

text \<open>The text handed to the frame parser, by decoder method.\<close>

definition frameData :: "'v env \<Rightarrow> QByteArray \<Rightarrow> QString" where
  "frameData env data =
     (case decoderMethod env of
        PlainText \<Rightarrow> fromUtf8 env data
      | Hexadecimal \<Rightarrow> fromUtf8 env (toHex env data)
      | Base64 \<Rightarrow> fromUtf8 env (toBase64 env data)
      | OtherMethod \<Rightarrow> fromUtf8 env data)"

text \<open>The fields: from the frame parser on live data, by splitting the text during CSV playback.\<close>

definition readFields :: "'v env \<Rightarrow> (QString \<Rightarrow> QStringList) \<Rightarrow> QByteArray \<Rightarrow> QStringList" where
  "readFields env parser data =
     (if \<not> csvPlaying env then parser (frameData env data)
      else split CHR '','' (fromUtf8 env (simplified data)))"

text \<open>
  The body of the inner loop: \<^verbatim>\<open>if (index <= fields.count() && index > 0)
  dataset.m_value = fields.at(index - 1);\<close>
\<close>

definition replaceValue :: "QStringList \<Rightarrow> Dataset \<Rightarrow> Dataset" where
  "replaceValue flds dataset =
     (let index = m_index dataset
      in if index \<le> int (length flds) \<and> index > 0
         then dataset\<lparr>m_value := flds ! nat (index - 1)\<rparr>
         else dataset)"

definition replaceGroup :: "QStringList \<Rightarrow> Group \<Rightarrow> Group" where
  "replaceGroup flds grp =
     grp\<lparr>m_datasets := for_each_index (replaceValue flds) 0 (m_datasets grp)\<rparr>"

definition replaceData :: "QStringList \<Rightarrow> Frame \<Rightarrow> Frame" where
  "replaceData flds frame =
     frame\<lparr>m_groups := for_each_index (replaceGroup flds) 0 (m_groups frame)\<rparr>"

subsection \<open>readData: the quick-plot mode\<close>

text \<open>
  The loop that builds one dataset per field; \<open>channel\<close> is the counter, \<open>datasets\<close>
  the vector built so far. \<^verbatim>\<open>tr("Channel %1").arg(channel)\<close> is the text with the
  number in place of \<^verbatim>\<open>%1\<close> (\<^verbatim>\<open>tr\<close> is the identity here too). The counter is a C++ \<^verbatim>\<open>int\<close>; the model counts in
  \<open>int\<close>, which agrees with it below \<open>2 ^ 31\<close> fields.
\<close>

fun createDatasets :: "'v env \<Rightarrow> QByteArray list \<Rightarrow> int \<Rightarrow> Dataset list \<Rightarrow> Dataset list" where
  "createDatasets env [] channel datasets = datasets"
| "createDatasets env (field # flds) channel datasets =
     createDatasets env flds (channel + 1)
       (datasets @ [Dataset_new\<lparr>m_groupId := 0, m_index := channel,
                                 m_title := ''Channel '' @ QString_number channel,
                                 m_value := fromUtf8 env field, m_graph := False\<rparr>])"

definition datagridGroup :: "Dataset list \<Rightarrow> Group" where
  "datagridGroup datasets =
     (Group_new 0)\<lparr>m_datasets := datasets, m_title_g := ''Quick Plot Data'',
                   m_widget_g := ''datagrid''\<rparr>"

definition multiplotGroup :: "Dataset list \<Rightarrow> Group" where
  "multiplotGroup datasets =
     (let multiplot = (Group_new 1)\<lparr>m_datasets := datasets, m_title_g := ''Multiple Plots'',
                                    m_widget_g := ''multiplot''\<rparr>
      in multiplot\<lparr>m_datasets :=
           for_each_index (\<lambda>d. d\<lparr>m_groupId := 1\<rparr>) 0 (m_datasets multiplot)\<rparr>)"

definition plotsGroup :: "Dataset list \<Rightarrow> Group" where
  "plotsGroup datasets =
     (let plots = (Group_new 2)\<lparr>m_datasets := datasets, m_widget_g := [],
                                m_title_g := ''Individual Plots''\<rparr>
      in plots\<lparr>m_datasets :=
           for_each_index
             (\<lambda>d. d\<lparr>m_groupId := 2, m_graph := True,
                     m_displayInOverview := (length (m_datasets plots) = 1)\<rparr>)
             0 (m_datasets plots)\<rparr>)"

definition quickPlotFrame :: "'v env \<Rightarrow> QByteArray \<Rightarrow> Frame" where
  "quickPlotFrame env data =
     (let flds = split CHR '','' data;
          datasets = createDatasets env flds 1 [];
          frame = Frame_empty\<lparr>m_title_f := ''Quick Plot''\<rparr>;
          frame1 = frame\<lparr>m_groups := m_groups frame @ [datagridGroup datasets]\<rparr>;
          frame2 = (if length datasets > 1
                    then frame1\<lparr>m_groups := m_groups frame1 @ [multiplotGroup datasets]\<rparr>
                    else frame1)
      in frame2\<lparr>m_groups := m_groups frame2 @ [plotsGroup datasets]\<rparr>)"

subsection \<open>readData\<close>

definition readJson :: "'v env \<Rightarrow> QByteArray \<Rightarrow> builder \<Rightarrow> builder" where
  "readJson env data st =
     (let jsonData = object (document (fromJson env data));
          (ok, frame) = Frame_read env (m_frame st) jsonData;
          st1 = st\<lparr>m_frame := frame\<rparr>
      in if ok then emit (frameChanged frame) st1 else st1)"

definition readProject ::
  "'v env \<Rightarrow> (QString \<Rightarrow> QStringList) \<Rightarrow> QByteArray \<Rightarrow> builder \<Rightarrow> builder" where
  "readProject env parser data st =
     (let flds = readFields env parser data;
          st1 = st\<lparr>m_frame := replaceData flds (m_frame st)\<rparr>
      in emit (frameChanged (m_frame st1)) st1)"

definition readData :: "'v env \<Rightarrow> QByteArray \<Rightarrow> builder \<Rightarrow> builder" where
  "readData env data st =
     (if data = [] then st
      else if m_opMode st = DeviceSendsJSON then readJson env data st
      else (case (if m_opMode st = ProjectFile then m_frameParser st else None) of
              Some parser \<Rightarrow> readProject env parser data st
            | None \<Rightarrow>
                if m_opMode st = QuickPlot then emit (frameChanged (quickPlotFrame env data)) st
                else st))"

subsection \<open>A concrete setting\<close>

text \<open>
  An instance of the collaborators on which the model can be run: text is ASCII, so
  \<open>fromUtf8\<close> is the identity; the two encoders and the JSON parser are stand-ins; the
  only file is \<^verbatim>\<open>project.json\<close>; a document has the shape of a frame when it is an
  object with a title, and the frame read from it has that title and one group with two
  datasets, of index 2 and of index 5.
\<close>

definition sampleFrame :: "QString \<Rightarrow> Frame" where
  "sampleFrame title =
     \<lparr>m_title_f = title,
      m_groups = [(Group_new 0)\<lparr>m_title_g := ''Group'',
                    m_datasets := [Dataset_new\<lparr>m_index := 2, m_title := ''Second''\<rparr>,
                                   Dataset_new\<lparr>m_index := 5, m_title := ''Fifth''\<rparr>]\<rparr>],
      m_frameStart = ''/*'', m_frameEnd = ''*/''\<rparr>"

definition sampleRead :: "Frame \<Rightarrow> QString QJsonObject \<Rightarrow> bool \<times> Frame" where
  "sampleRead frame obj =
     (case map_of obj ''title'' of
        Some title \<Rightarrow> (True, sampleFrame title)
      | None \<Rightarrow> (False, Frame_empty))"

definition sampleJson :: "QByteArray \<Rightarrow> QString + QString QJsonDocument" where
  \<open>sampleJson data =
     (if data = ''{"title":"T"}'' then Inr (ObjectDocument [(''title'', ''T'')])
      else if data = ''[]'' then Inr (ArrayDocument [])
      else Inl ''illegal value'')\<close>

definition sampleEnv :: "QString env" where
  \<open>sampleEnv =
     \<lparr>fromUtf8 = (\<lambda>data. data), toHex = (\<lambda>data. ''hex''), toBase64 = (\<lambda>data. ''base64''),
      fromJson = sampleJson, Frame_read = sampleRead,
      Frame_isValid = (\<lambda>frame. m_groups frame \<noteq> []),
      readFile = (\<lambda>path. if path = ''project.json'' then Some ''{"title":"T"}'' else None),
      csvPlaying = False, decoderMethod = PlainText\<rparr>\<close>

text \<open>
  The members as the initialiser list of the constructor leaves them, with nothing stored in
  the settings.
\<close>

definition newBuilder :: builder where
  "newBuilder =
     \<lparr>m_opMode = ProjectFile, m_frameParser = None, m_frame = Frame_empty,
      m_jsonMap_fileName = [], m_jsonMap_isOpen = False, m_settings = Map.empty,
      io_startSequence = [], io_finishSequence = [], events = []\<rparr>"

text \<open>
  The builder after \<^verbatim>\<open>project.json\<close> has been loaded and a frame parser that splits at
  commas has been registered, and the same builder after the message \<^verbatim>\<open>1,2,3,4,5\<close>.
\<close>

definition loadedBuilder :: builder where
  "loadedBuilder =
     setFrameParser (Some (split CHR '','')) (loadJsonMap sampleEnv ''project.json'' newBuilder)"

definition playedBuilder :: builder where
  "playedBuilder = readData sampleEnv ''1,2,3,4,5'' loadedBuilder"

text \<open>
  More builders and settings to run the model on: a builder with a frame parser and no
  project loaded; the collaborators during CSV playback; a builder in the mode where the
  device sends JSON, before and after a frame has arrived; a builder in the quick-plot
  mode.
\<close>

definition parserBuilder :: builder where
  "parserBuilder = setFrameParser (Some (split CHR '','')) newBuilder"

definition playbackEnv :: "QString env" where
  "playbackEnv = sampleEnv\<lparr>csvPlaying := True\<rparr>"

definition jsonModeBuilder :: builder where
  "jsonModeBuilder = setOperationMode DeviceSendsJSON newBuilder"

definition jsonBuilder :: builder where
  \<open>jsonBuilder = readData sampleEnv ''{"title":"T"}'' jsonModeBuilder\<close>

definition quickBuilder :: builder where
  "quickBuilder = setOperationMode QuickPlot newBuilder"

text \<open>
  A builder in the project-file mode that has never loaded a project and still holds the
  frame a device sent while the mode was the JSON one; a frame parser is registered.
\<close>

definition deviceFrameBuilder :: builder where
  "deviceFrameBuilder =
     setFrameParser (Some (split CHR '','')) (setOperationMode ProjectFile jsonBuilder)"

subsection \<open>The dataset of a channel\<close>

text \<open>
  The dataset that the loop of the quick-plot mode appends for the field \<open>field\<close> when its
  counter stands at \<open>channel\<close>, written out.
\<close>

definition channelDataset :: "'v env \<Rightarrow> int \<Rightarrow> QByteArray \<Rightarrow> Dataset" where
  "channelDataset env channel field =
     \<lparr>m_groupId = 0, m_index = channel, m_title = ''Channel '' @ QString_number channel,
      m_value = fromUtf8 env field, m_widget = [], m_graph = False,
      m_displayInOverview = False\<rparr>"

subsection \<open>Frames up to their values\<close>

text \<open>
  A frame with the value of every dataset blanked. Two frames that agree after blanking
  have the same groups and datasets in the same order and differ at most in values.
\<close>

definition withoutValue :: "Dataset \<Rightarrow> Dataset" where
  "withoutValue dataset = dataset\<lparr>m_value := []\<rparr>"

definition withoutValues_g :: "Group \<Rightarrow> Group" where
  "withoutValues_g grp = grp\<lparr>m_datasets := map withoutValue (m_datasets grp)\<rparr>"

definition withoutValues :: "Frame \<Rightarrow> Frame" where
  "withoutValues frame = frame\<lparr>m_groups := map withoutValues_g (m_groups frame)\<rparr>"

section \<open>Properties\<close>

subsection \<open>The in-place loop\<close>

text \<open>
  A pass of the loop from position \<open>i\<close> leaves the elements before \<open>i\<close> alone and applies
  the body to each of the others, once, in order; from 0 it is \<open>map\<close>.
\<close>

lemma for_each_index_take_drop:
  "i \<le> length v \<Longrightarrow> for_each_index f i v = take i v @ map f (drop i v)"
proof (induction f i v rule: for_each_index.induct)
  case (1 f i v)
  show ?case
  proof (cases "i < length v")
    case True
    have "for_each_index f i v = for_each_index f (Suc i) (v[i := f (v ! i)])"
      using True by (subst for_each_index.simps) simp
    also have "\<dots> = take (Suc i) (v[i := f (v ! i)]) @ map f (drop (Suc i) (v[i := f (v ! i)]))"
      using True "1.IH" by simp
    also have "\<dots> = take i v @ f (v ! i) # map f (drop (Suc i) v)"
      using True by (simp add: take_Suc_conv_app_nth)
    also have "\<dots> = take i v @ map f (drop i v)"
      using True by (simp add: Cons_nth_drop_Suc [symmetric])
    finally show ?thesis .
  next
    case False
    with "1.prems" show ?thesis
      by (subst for_each_index.simps) simp
  qed
qed

lemma for_each_index_map: "for_each_index f 0 v = map f v"
  by (simp add: for_each_index_take_drop)

subsection \<open>Empty input\<close>

text \<open>
  C10. In every operation mode, \<^verbatim>\<open>readData\<close> on an empty byte array does nothing: the
  state after the call is the state before it, members, settings, sequences and trace
  alike, so no frame is published.
\<close>

theorem readData_empty: "readData env [] st = st"
  by (simp add: readData_def)

subsection \<open>The sample builders\<close>

lemmas model_defs =
  readData_def readJson_def readProject_def readFields_def frameData_def
  loadJsonMap_def loadDocument_def loadFailed_def closePrevious_def
  setOperationMode_def setFrameParser_def setJsonPathSetting_def setValue_def
  setStartSequence_def setFinishSequence_def emit_def document_def
  replaceData_def replaceGroup_def replaceValue_def for_each_index_map
  split_def

lemmas sample_defs =
  sampleEnv_def sampleJson_def sampleRead_def sampleFrame_def newBuilder_def
  Frame_empty_def Group_new_def Dataset_new_def

lemma playedBuilder_mode: "m_opMode playedBuilder = ProjectFile"
  by (simp add: playedBuilder_def loadedBuilder_def model_defs sample_defs Let_def)

lemma playedBuilder_parser: "m_frameParser playedBuilder = Some (split CHR '','')"
  by (simp add: playedBuilder_def loadedBuilder_def model_defs sample_defs Let_def)

lemma playedBuilder_frame:
  "m_frame playedBuilder = (sampleFrame ''T'')\<lparr>m_groups :=
     [(Group_new 0)\<lparr>m_title_g := ''Group'',
        m_datasets := [Dataset_new\<lparr>m_index := 2, m_title := ''Second'', m_value := ''2''\<rparr>,
                       Dataset_new\<lparr>m_index := 5, m_title := ''Fifth'', m_value := ''5''\<rparr>]\<rparr>]\<rparr>"
  by (simp add: playedBuilder_def loadedBuilder_def model_defs sample_defs Let_def)

lemma sample_fields: "readFields sampleEnv (split CHR '','') ''10,20,30'' = [''10'', ''20'', ''30'']"
  by (simp add: readFields_def frameData_def sampleEnv_def split_def)

subsection \<open>The mutation pass\<close>

lemma replaceGroup_map:
  "replaceGroup flds grp = grp\<lparr>m_datasets := map (replaceValue flds) (m_datasets grp)\<rparr>"
  by (simp add: replaceGroup_def for_each_index_map)

lemma replaceData_map:
  "replaceData flds frame = frame\<lparr>m_groups := map (replaceGroup flds) (m_groups frame)\<rparr>"
  by (simp add: replaceData_def for_each_index_map)

lemma replaceData_value:
  assumes "g < length (m_groups frame)" and "d < length (m_datasets (m_groups frame ! g))"
  shows "m_datasets (m_groups (replaceData flds frame) ! g) ! d =
           replaceValue flds (m_datasets (m_groups frame ! g) ! d)"
  using assms by (simp add: replaceData_map replaceGroup_map)

lemma replaceValue_value:
  "m_value (replaceValue flds dataset) =
     (if 1 \<le> m_index dataset \<and> m_index dataset \<le> int (length flds)
      then flds ! nat (m_index dataset - 1) else m_value dataset)"
  by (auto simp: replaceValue_def Let_def)

lemma readData_project:
  assumes "m_opMode st = ProjectFile" and "m_frameParser st = Some parser" and "data \<noteq> []"
  shows "readData env data st = readProject env parser data st"
  using assms by (simp add: readData_def)

lemma m_frame_readProject:
  "m_frame (readProject env parser data st) = replaceData (readFields env parser data) (m_frame st)"
  by (simp add: readProject_def Let_def emit_def)

text \<open>
  C1. In the project-file mode, with a frame parser registered and a message that is
  not empty, let \<open>flds\<close> be the list of fields of the message. The dataset at position
  \<open>d\<close> of the group at position \<open>g\<close> of the frame ends with the value \<open>flds ! (index - 1)\<close>
  when its index is between 1 and the number of fields, and with the value it had
  otherwise (index 0 included). The witness is the example of the specification: with the
  fields 10, 20, 30 the dataset of index 2 ends with 20 and the dataset of index 5 keeps
  the value 5 it had.
\<close>

theorem readData_ProjectFile_values:
  assumes "m_opMode st = ProjectFile" and "m_frameParser st = Some parser" and "data \<noteq> []"
    and "g < length (m_groups (m_frame st))"
    and "d < length (m_datasets (m_groups (m_frame st) ! g))"
  shows "m_value (m_datasets (m_groups (m_frame (readData env data st)) ! g) ! d) =
           (if 1 \<le> m_index (m_datasets (m_groups (m_frame st) ! g) ! d)
                 \<and> m_index (m_datasets (m_groups (m_frame st) ! g) ! d)
                     \<le> int (length (readFields env parser data))
            then readFields env parser data
                   ! nat (m_index (m_datasets (m_groups (m_frame st) ! g) ! d) - 1)
            else m_value (m_datasets (m_groups (m_frame st) ! g) ! d))"
proof -
  have "m_frame (readData env data st) = replaceData (readFields env parser data) (m_frame st)"
    using assms(1-3) by (simp add: readData_project m_frame_readProject)
  then show ?thesis
    using assms(4,5) by (simp add: replaceData_value replaceValue_value)
qed

theorem readData_ProjectFile_values_witness:
  "m_opMode playedBuilder = ProjectFile
   \<and> m_frameParser playedBuilder = Some (split CHR '','')
   \<and> readFields sampleEnv (split CHR '','') ''10,20,30'' = [''10'', ''20'', ''30'']
   \<and> m_index (m_datasets (m_groups (m_frame playedBuilder) ! 0) ! 0) = 2
   \<and> m_value (m_datasets (m_groups (m_frame
         (readData sampleEnv ''10,20,30'' playedBuilder)) ! 0) ! 0) = ''20''
   \<and> m_index (m_datasets (m_groups (m_frame playedBuilder) ! 0) ! 1) = 5
   \<and> m_value (m_datasets (m_groups (m_frame playedBuilder) ! 0) ! 1) = ''5''
   \<and> m_value (m_datasets (m_groups (m_frame
         (readData sampleEnv ''10,20,30'' playedBuilder)) ! 0) ! 1) = ''5''"
proof -
  have data: "''10,20,30'' \<noteq> []" by simp
  have g: "0 < length (m_groups (m_frame playedBuilder))"
    by (simp add: playedBuilder_frame)
  have d0: "0 < length (m_datasets (m_groups (m_frame playedBuilder) ! 0))"
    and d1: "1 < length (m_datasets (m_groups (m_frame playedBuilder) ! 0))"
    by (simp_all add: playedBuilder_frame)
  note second = readData_ProjectFile_values
    [OF playedBuilder_mode playedBuilder_parser data g d0, of sampleEnv]
  note fifth = readData_ProjectFile_values
    [OF playedBuilder_mode playedBuilder_parser data g d1, of sampleEnv]
  show ?thesis
    using second fifth
    by (simp add: playedBuilder_mode playedBuilder_parser playedBuilder_frame sample_fields
        Dataset_new_def)
qed

subsection \<open>The mutation pass keeps the shape of the frame\<close>

lemma withoutValue_replaceValue: "withoutValue (replaceValue flds dataset) = withoutValue dataset"
  by (simp add: withoutValue_def replaceValue_def Let_def)

lemma withoutValues_g_replaceGroup: "withoutValues_g (replaceGroup flds grp) = withoutValues_g grp"
  by (simp add: withoutValues_g_def replaceGroup_map withoutValue_replaceValue comp_def)

lemma withoutValues_replaceData: "withoutValues (replaceData flds frame) = withoutValues frame"
  by (simp add: withoutValues_def replaceData_map withoutValues_g_replaceGroup comp_def)

text \<open>
  C8. In the project-file mode, the frame after \<^verbatim>\<open>readData\<close> and the frame before it are
  the same once the values are blanked: the same title and sequences, the same groups in
  the same order with the same id, title and widget, and in each group the same datasets
  in the same order with the same group id, index, title, widget, graph flag and overview
  flag. The pass adds, removes and reorders nothing and writes values only.
\<close>

theorem readData_ProjectFile_shape:
  assumes "m_opMode st = ProjectFile"
  shows "withoutValues (m_frame (readData env data st)) = withoutValues (m_frame st)"
proof (cases "data = [] \<or> m_frameParser st = None")
  case True
  then have "readData env data st = st"
    using assms by (auto simp: readData_def)
  then show ?thesis by simp
next
  case False
  then obtain parser where "m_frameParser st = Some parser" and "data \<noteq> []"
    by auto
  then have "m_frame (readData env data st) = replaceData (readFields env parser data) (m_frame st)"
    using assms by (simp add: readData_project m_frame_readProject)
  then show ?thesis
    by (simp add: withoutValues_replaceData)
qed

theorem readData_ProjectFile_shape_witness:
  "m_opMode playedBuilder = ProjectFile
   \<and> withoutValues (m_frame (readData sampleEnv ''10,20,30'' playedBuilder)) = sampleFrame ''T''
   \<and> withoutValues (m_frame playedBuilder) = sampleFrame ''T''"
  using readData_ProjectFile_shape [OF playedBuilder_mode, of sampleEnv "''10,20,30''"]
  by (simp add: playedBuilder_mode playedBuilder_frame withoutValues_def withoutValues_g_def
      withoutValue_def sampleFrame_def Group_new_def Dataset_new_def)

subsection \<open>setOperationMode\<close>

text \<open>
  C7. For every mode, \<^verbatim>\<open>setOperationMode\<close> makes it the current mode and leaves the frame
  alone; it hands \<^verbatim>\<open>IO::Manager\<close> the end and start sequences of the held frame for the
  project-file mode and two empty sequences for the JSON and quick-plot modes (a value
  that is none of the three enumerators raises a warning and leaves the sequences as they
  are); after that, and in this order, it stores the mode under \<^verbatim>\<open>operation_mode\<close> and
  emits \<^verbatim>\<open>operationModeChanged\<close>.
\<close>

theorem setOperationMode_effect:
  "m_opMode (setOperationMode mode st) = mode
   \<and> m_frame (setOperationMode mode st) = m_frame st
   \<and> (io_startSequence (setOperationMode mode st), io_finishSequence (setOperationMode mode st)) =
       (case mode of
          ProjectFile \<Rightarrow> (m_frameStart (m_frame st), m_frameEnd (m_frame st))
        | DeviceSendsJSON \<Rightarrow> ([], [])
        | QuickPlot \<Rightarrow> ([], [])
        | InvalidMode i \<Rightarrow> (io_startSequence st, io_finishSequence st))
   \<and> m_settings (setOperationMode mode st) = (m_settings st)(''operation_mode'' \<mapsto> VMode mode)
   \<and> events (setOperationMode mode st) =
       events st
       @ (case mode of
            ProjectFile \<Rightarrow> [finishSequenceSet (m_frameEnd (m_frame st)),
                            startSequenceSet (m_frameStart (m_frame st))]
          | DeviceSendsJSON \<Rightarrow> [startSequenceSet [], finishSequenceSet []]
          | QuickPlot \<Rightarrow> [startSequenceSet [], finishSequenceSet []]
          | InvalidMode i \<Rightarrow> [qWarning ''Invalid operation mode selected''])
       @ [settingStored ''operation_mode'' (VMode mode), operationModeChanged]"
  by (cases mode)
     (simp_all add: setOperationMode_def setStartSequence_def setFinishSequence_def
        setValue_def emit_def)

subsection \<open>readData when the device sends JSON\<close>

lemma readData_json:
  assumes "m_opMode st = DeviceSendsJSON" and "data \<noteq> []"
  shows "readData env data st = readJson env data st"
  using assms by (simp add: readData_def)

lemma events_readJson:
  "events (readJson env data st) =
     events st @ (if fst (Frame_read env (m_frame st) (object (document (fromJson env data))))
                  then [frameChanged (snd (Frame_read env (m_frame st)
                                             (object (document (fromJson env data)))))]
                  else [])"
  by (simp add: readJson_def Let_def emit_def split: prod.splits)

lemma m_frame_readJson:
  "m_frame (readJson env data st) =
     snd (Frame_read env (m_frame st) (object (document (fromJson env data))))"
  by (simp add: readJson_def Let_def emit_def split: prod.splits)

lemma object_parse_error: "isl r \<Longrightarrow> object (document r) = []"
  by (cases r) (simp_all add: document_def)

text \<open>
  C3. In the mode where the device sends JSON, on a message that is not empty, the frame
  is read from the object of the parsed document. When \<^verbatim>\<open>Frame::read\<close> accepts the object,
  exactly one \<^verbatim>\<open>frameChanged\<close> is emitted and it carries the frame as read; when it rejects
  the object, nothing is emitted. A message that fails to parse gives the null document,
  whose object is empty: nothing is emitted for it as soon as \<^verbatim>\<open>Frame::read\<close> rejects the
  empty object, as the shape rules of the specification demand (a frame has a title and a
  list of groups that is not empty).
\<close>

theorem readData_DeviceSendsJSON:
  assumes "m_opMode st = DeviceSendsJSON" and "data \<noteq> []"
  shows "events (readData env data st) =
           events st @ (if fst (Frame_read env (m_frame st) (object (document (fromJson env data))))
                        then [frameChanged (snd (Frame_read env (m_frame st)
                                                   (object (document (fromJson env data)))))]
                        else [])
         \<and> m_frame (readData env data st) =
             snd (Frame_read env (m_frame st) (object (document (fromJson env data))))
         \<and> (isl (fromJson env data) \<and> \<not> fst (Frame_read env (m_frame st) [])
              \<longrightarrow> events (readData env data st) = events st)"
  using assms
  by (simp add: readData_json events_readJson m_frame_readJson object_parse_error)

lemma jsonModeBuilder_mode: "m_opMode jsonModeBuilder = DeviceSendsJSON"
  by (simp add: jsonModeBuilder_def setOperationMode_def setStartSequence_def
      setFinishSequence_def setValue_def emit_def)

lemma jsonModeBuilder_frame: "m_frame jsonModeBuilder = Frame_empty"
  by (simp add: jsonModeBuilder_def newBuilder_def setOperationMode_def setStartSequence_def
      setFinishSequence_def setValue_def emit_def)

theorem readData_DeviceSendsJSON_witness:
  \<open>m_opMode jsonModeBuilder = DeviceSendsJSON
   \<and> events (readData sampleEnv ''{"title":"T"}'' jsonModeBuilder) =
       events jsonModeBuilder @ [frameChanged (sampleFrame ''T'')]
   \<and> m_frame (readData sampleEnv ''{"title":"T"}'' jsonModeBuilder) = sampleFrame ''T''
   \<and> isl (fromJson sampleEnv ''{"title":'')
   \<and> \<not> fst (Frame_read sampleEnv (m_frame jsonModeBuilder) [])
   \<and> events (readData sampleEnv ''{"title":'' jsonModeBuilder) = events jsonModeBuilder\<close>
proof -
  have valid: \<open>''{"title":"T"}'' \<noteq> []\<close> and broken: \<open>''{"title":'' \<noteq> []\<close>
    by simp_all
  show ?thesis
    using readData_DeviceSendsJSON [OF jsonModeBuilder_mode valid, of sampleEnv]
      readData_DeviceSendsJSON [OF jsonModeBuilder_mode broken, of sampleEnv]
    by (simp add: jsonModeBuilder_mode jsonModeBuilder_frame sampleEnv_def sampleJson_def
        sampleRead_def document_def)
qed

subsection \<open>readData in the project-file mode: when a message is dropped\<close>

lemma parserBuilder_facts:
  "m_opMode parserBuilder = ProjectFile" "m_frameParser parserBuilder = Some (split CHR '','')"
  "m_frame parserBuilder = Frame_empty" "\<not> m_jsonMap_isOpen parserBuilder"
  "events parserBuilder = []"
  by (simp_all add: parserBuilder_def setFrameParser_def newBuilder_def)

text \<open>
  C4, as the specification states it, fails: with a frame parser registered and no
  project loaded (the frame is empty and no file is open), the message \<^verbatim>\<open>1,2\<close> is not
  dropped. The loop finds no group to update and \<^verbatim>\<open>frameChanged\<close> is emitted with the
  empty frame.
\<close>

theorem readData_no_schema_counterexample:
  "m_opMode parserBuilder = ProjectFile
   \<and> m_frame parserBuilder = Frame_empty
   \<and> \<not> m_jsonMap_isOpen parserBuilder
   \<and> events (readData sampleEnv ''1,2'' parserBuilder) =
       events parserBuilder @ [frameChanged Frame_empty]
   \<and> events (readData sampleEnv ''1,2'' parserBuilder) \<noteq> events parserBuilder"
  by (simp add: parserBuilder_facts readData_def readProject_def emit_def Let_def
      replaceData_map Frame_empty_def)

lemma replaceData_Frame_empty: "replaceData flds Frame_empty = Frame_empty"
  by (simp add: replaceData_map Frame_empty_def)

lemma deviceFrameBuilder_facts:
  "m_opMode deviceFrameBuilder = ProjectFile"
  "m_frameParser deviceFrameBuilder = Some (split CHR '','')"
  "m_frame deviceFrameBuilder = sampleFrame ''T''"
  "\<not> m_jsonMap_isOpen deviceFrameBuilder"
  "m_settings deviceFrameBuilder ''json_map_location'' = None"
  by (simp_all add: deviceFrameBuilder_def jsonBuilder_def jsonModeBuilder_def model_defs
      sample_defs Let_def)

text \<open>
  C4, amended. In the project-file mode a message is dropped, with no event of any kind
  and no change of state, when no frame parser is registered. With a frame parser
  registered, every message that is not empty ends in exactly one \<^verbatim>\<open>frameChanged\<close>, and
  it carries the held frame after the mutation pass with the fields of the message,
  whether or not a project is loaded. When the held frame is empty, the frame published
  is the empty frame; a builder that has loaded no project can also hold a frame that a
  device sent, and then that frame is updated and published.
\<close>

theorem readData_ProjectFile_drop:
  assumes "m_opMode st = ProjectFile"
  shows "(m_frameParser st = None \<longrightarrow> readData env data st = st)
         \<and> (m_frameParser st \<noteq> None \<and> data \<noteq> [] \<longrightarrow>
              events (readData env data st) =
                events st @ [frameChanged (m_frame (readData env data st))])
         \<and> (m_frameParser st = Some parser \<and> data \<noteq> [] \<longrightarrow>
              m_frame (readData env data st) =
                replaceData (readFields env parser data) (m_frame st)
              \<and> events (readData env data st) =
                  events st @ [frameChanged (replaceData (readFields env parser data)
                                               (m_frame st))])
         \<and> (m_frameParser st \<noteq> None \<and> data \<noteq> [] \<and> m_frame st = Frame_empty \<longrightarrow>
              m_frame (readData env data st) = Frame_empty
              \<and> events (readData env data st) = events st @ [frameChanged Frame_empty])"
  using assms
  by (auto simp: readData_def readProject_def emit_def Let_def replaceData_Frame_empty)

theorem readData_ProjectFile_drop_witness:
  "m_opMode newBuilder = ProjectFile
   \<and> m_frameParser newBuilder = None
   \<and> readData sampleEnv ''1,2'' newBuilder = newBuilder
   \<and> m_opMode parserBuilder = ProjectFile
   \<and> m_frameParser parserBuilder = Some (split CHR '','')
   \<and> m_frame parserBuilder = Frame_empty
   \<and> events (readData sampleEnv ''1,2'' parserBuilder) =
       events parserBuilder @ [frameChanged Frame_empty]
   \<and> m_opMode deviceFrameBuilder = ProjectFile
   \<and> m_frameParser deviceFrameBuilder = Some (split CHR '','')
   \<and> \<not> m_jsonMap_isOpen deviceFrameBuilder
   \<and> m_settings deviceFrameBuilder ''json_map_location'' = None
   \<and> events (readData sampleEnv ''1,2'' deviceFrameBuilder) =
       events deviceFrameBuilder
       @ [frameChanged (replaceData [''1'', ''2''] (sampleFrame ''T''))]
   \<and> map m_value (m_datasets (m_groups (replaceData [''1'', ''2''] (sampleFrame ''T'')) ! 0))
       = [''2'', []]
   \<and> replaceData [''1'', ''2''] (sampleFrame ''T'') \<noteq> Frame_empty"
proof -
  have mode: "m_opMode newBuilder = ProjectFile" and none: "m_frameParser newBuilder = None"
    by (simp_all add: newBuilder_def)
  have flds: "readFields sampleEnv (split CHR '','') ''1,2'' = [''1'', ''2'']"
    by (simp add: readFields_def frameData_def sampleEnv_def split_def)
  have frame: "map m_value (m_datasets (m_groups (replaceData [''1'', ''2''] (sampleFrame ''T'')) ! 0))
        = [''2'', []]"
    "replaceData [''1'', ''2''] (sampleFrame ''T'') \<noteq> Frame_empty"
    by (simp_all add: replaceData_map replaceGroup_map replaceValue_def sample_defs)
  show ?thesis
    using readData_ProjectFile_drop
        [OF mode, where env = sampleEnv and data = "''1,2''" and parser = "split CHR '',''"]
      readData_ProjectFile_drop
        [OF parserBuilder_facts(1),
         where env = sampleEnv and data = "''1,2''" and parser = "split CHR '',''"]
      readData_ProjectFile_drop
        [OF deviceFrameBuilder_facts(1),
         where env = sampleEnv and data = "''1,2''" and parser = "split CHR '',''"]
    by (simp add: mode none parserBuilder_facts deviceFrameBuilder_facts flds frame
        replaceData_Frame_empty)
qed

subsection \<open>readData in the project-file mode: CSV playback\<close>

text \<open>
  C9, as the specification states it, fails: during playback the bytes go through
  \<^verbatim>\<open>simplified()\<close> before they are split, so the fields of the message \<^verbatim>\<open> 1, 2 \<close> (with a
  space at each end) are \<^verbatim>\<open>1\<close> and \<^verbatim>\<open> 2\<close>, not the pieces \<^verbatim>\<open> 1\<close> and \<^verbatim>\<open> 2 \<close> of the
  text itself.
\<close>

theorem readFields_playback_counterexample:
  "csvPlaying playbackEnv
   \<and> readFields playbackEnv (split CHR '','') '' 1, 2 '' = [''1'', '' 2'']
   \<and> split CHR '','' (fromUtf8 playbackEnv '' 1, 2 '') = ['' 1'', '' 2 '']
   \<and> readFields playbackEnv (split CHR '','') '' 1, 2 ''
       \<noteq> split CHR '','' (fromUtf8 playbackEnv '' 1, 2 '')"
  by (simp add: playbackEnv_def sampleEnv_def readFields_def split_def simplified_def isspace_def)

text \<open>
  C9, amended. In the project-file mode during CSV playback, the fields are the pieces
  between the commas of the text of the simplified bytes (spacing removed at both ends,
  every inner run of spacing turned into one space). Neither the frame parser nor the
  decoder method has a part in them: any other parser and any other method give the same
  fields. The frame published is the held frame after the mutation pass with these
  fields.
\<close>

theorem readData_playback:
  assumes "m_opMode st = ProjectFile" and "m_frameParser st = Some parser"
    and "csvPlaying env" and "data \<noteq> []"
  shows "readFields env parser data = split CHR '','' (fromUtf8 env (simplified data))
         \<and> readFields (env\<lparr>decoderMethod := method\<rparr>) parser' data = readFields env parser data
         \<and> m_frame (readData env data st) =
             replaceData (split CHR '','' (fromUtf8 env (simplified data))) (m_frame st)
         \<and> events (readData env data st) =
             events st @ [frameChanged (replaceData (split CHR '','' (fromUtf8 env (simplified data)))
                                          (m_frame st))]"
  using assms
  by (simp add: readData_def readProject_def readFields_def emit_def Let_def)

theorem readData_playback_witness:
  "m_opMode playedBuilder = ProjectFile
   \<and> m_frameParser playedBuilder = Some (split CHR '','')
   \<and> csvPlaying playbackEnv
   \<and> readFields playbackEnv (split CHR '','') ''  10, 20 ,30 '' = [''10'', '' 20 '', ''30'']
   \<and> map m_value (m_datasets (m_groups (m_frame
         (readData playbackEnv ''  10, 20 ,30 '' playedBuilder)) ! 0)) = ['' 20 '', ''5'']"
proof -
  have playing: "csvPlaying playbackEnv"
    by (simp add: playbackEnv_def)
  have data: "''  10, 20 ,30 '' \<noteq> []"
    by simp
  have flds: "split CHR '','' (fromUtf8 playbackEnv (simplified ''  10, 20 ,30 ''))
      = [''10'', '' 20 '', ''30'']"
    by (simp add: playbackEnv_def sampleEnv_def split_def simplified_def isspace_def)
  show ?thesis
    using readData_playback [OF playedBuilder_mode playedBuilder_parser playing data]
    by (simp add: playedBuilder_mode playedBuilder_parser playing flds playedBuilder_frame
        replaceData_map replaceGroup_map replaceValue_def sampleFrame_def Group_new_def
        Dataset_new_def)
qed

subsection \<open>loadJsonMap: what a failed load leaves\<close>

text \<open>
  A parse error and a document that is not a valid frame both leave the empty frame and
  the empty path in the settings. A file that cannot be opened leaves the empty path in
  the settings too, but the frame is emptied only when a file was open before the call.
\<close>

lemma loadJsonMap_parse_error:
  assumes "path \<noteq> []" and "readFile env path = Some data" and "fromJson env data = Inl err"
  shows "m_frame (loadJsonMap env path st) = Frame_empty
         \<and> m_settings (loadJsonMap env path st) ''json_map_location'' = Some (VString [])"
  using assms
  by (simp add: loadJsonMap_def loadFailed_def setJsonPathSetting_def setValue_def emit_def Let_def)

lemma loadJsonMap_invalid_format:
  assumes "path \<noteq> []" and "readFile env path = Some data" and "fromJson env data = Inr doc"
    and "\<not> (fst (Frame_read env Frame_empty (object doc))
            \<and> Frame_isValid env (snd (Frame_read env Frame_empty (object doc))))"
  shows "m_frame (loadJsonMap env path st) = Frame_empty
         \<and> m_settings (loadJsonMap env path st) ''json_map_location'' = Some (VString [])"
  using assms
  by (auto simp: loadJsonMap_def loadDocument_def loadFailed_def setJsonPathSetting_def
      setValue_def emit_def Let_def split: prod.splits)

lemma loadJsonMap_open_error:
  assumes "path \<noteq> []" and "readFile env path = None"
  shows "m_frame (loadJsonMap env path st) =
           (if m_jsonMap_isOpen st then Frame_empty else m_frame st)
         \<and> m_settings (loadJsonMap env path st) ''json_map_location'' = Some (VString [])"
  using assms
  by (simp add: loadJsonMap_def closePrevious_def setJsonPathSetting_def setValue_def emit_def
      Let_def)

lemma jsonBuilder_facts:
  "\<not> m_jsonMap_isOpen jsonBuilder" "m_frame jsonBuilder = sampleFrame ''T''"
  by (simp_all add: jsonBuilder_def jsonModeBuilder_def model_defs sample_defs Let_def)

text \<open>
  C2. The claim is that every failed load leaves the frame empty. The run below shows
  where \<^verbatim>\<open>loadJsonMap\<close> does not: a frame has arrived while the device sends JSON, so a
  frame is held and no file is open; loading a file that cannot be opened then resets the
  stored path and keeps the frame.
\<close>

theorem loadJsonMap_open_error_keeps_frame:
  "readFile sampleEnv ''missing.json'' = None
   \<and> \<not> m_jsonMap_isOpen jsonBuilder
   \<and> m_frame jsonBuilder = sampleFrame ''T''
   \<and> m_frame (loadJsonMap sampleEnv ''missing.json'' jsonBuilder) = sampleFrame ''T''
   \<and> m_frame (loadJsonMap sampleEnv ''missing.json'' jsonBuilder) \<noteq> Frame_empty
   \<and> m_settings (loadJsonMap sampleEnv ''missing.json'' jsonBuilder) ''json_map_location''
       = Some (VString [])"
proof -
  have path: "''missing.json'' \<noteq> []" and missing: "readFile sampleEnv ''missing.json'' = None"
    by (simp_all add: sampleEnv_def)
  show ?thesis
    using loadJsonMap_open_error [OF path missing, of jsonBuilder]
    by (simp add: missing jsonBuilder_facts sampleFrame_def Frame_empty_def)
qed

subsection \<open>readData in the quick-plot mode\<close>

lemma split_when_not_Nil: "split_when sep s \<noteq> []"
  by (induction s) (auto split: list.splits)

lemma split_when_single: "length (split_when sep s) = 1 \<Longrightarrow> split_when sep s = [s]"
proof (induction s)
  case Nil
  then show ?case by simp
next
  case (Cons c cs)
  show ?case
  proof (cases "sep c")
    case True
    with Cons.prems split_when_not_Nil [of sep cs] show ?thesis
      by (cases "split_when sep cs") simp_all
  next
    case False
    with Cons split_when_not_Nil [of sep cs] show ?thesis
      by (cases "split_when sep cs") simp_all
  qed
qed

lemma createDatasets_map:
  "createDatasets env flds channel datasets =
     datasets @ map (\<lambda>i. channelDataset env (channel + int i) (flds ! i)) [0..<length flds]"
proof (induction flds arbitrary: channel datasets)
  case Nil
  then show ?case by simp
next
  case (Cons field flds)
  have "[0..<length (field # flds)] = 0 # map Suc [0..<length flds]"
    by (simp add: upt_conv_Cons map_Suc_upt del: upt_Suc)
  then show ?case
    by (simp add: Cons.IH channelDataset_def Dataset_new_def comp_def add.assoc del: upt_Suc)
qed

lemma length_createDatasets:
  "length (createDatasets env flds channel datasets) = length datasets + length flds"
  by (simp add: createDatasets_map)

lemma nth_createDatasets:
  "i < length flds \<Longrightarrow>
     createDatasets env flds channel [] ! i = channelDataset env (channel + int i) (flds ! i)"
  by (simp add: createDatasets_map)

lemma readData_quick:
  assumes "m_opMode st = QuickPlot" and "data \<noteq> []"
  shows "readData env data st = emit (frameChanged (quickPlotFrame env data)) st"
  using assms by (simp add: readData_def)

lemma groups_quickPlotFrame:
  "m_groups (quickPlotFrame env data) =
     (let datasets = createDatasets env (split CHR '','' data) 1 []
      in datagridGroup datasets
         # (if 1 < length datasets then [multiplotGroup datasets] else [])
         @ [plotsGroup datasets])"
  by (simp add: quickPlotFrame_def Let_def Frame_empty_def)

lemma datasets_datagridGroup: "m_datasets (datagridGroup datasets) = datasets"
  by (simp add: datagridGroup_def)

lemma datasets_multiplotGroup:
  "m_datasets (multiplotGroup datasets) = map (\<lambda>d. d\<lparr>m_groupId := 1\<rparr>) datasets"
  by (simp add: multiplotGroup_def Let_def for_each_index_map)

lemma datasets_plotsGroup:
  "m_datasets (plotsGroup datasets) =
     map (\<lambda>d. d\<lparr>m_groupId := 2, m_graph := True,
                 m_displayInOverview := (length datasets = 1)\<rparr>) datasets"
  by (simp add: plotsGroup_def Let_def for_each_index_map)

lemma QString_number_1: "QString_number 1 = ''1''"
  by (simp add: QString_number_def number_nat.simps digit_def)

text \<open>
  C5. In the quick-plot mode, a message with exactly one field (no comma) publishes a
  frame of exactly two groups: the data grid (id 0, widget \<^verbatim>\<open>datagrid\<close>) and the
  individual plots (id 2, title \<^verbatim>\<open>Individual Plots\<close>, no widget); there is no multiplot
  group. Each holds the one dataset of the channel, and the one in the individual plots
  is graphed and shown in the overview.
\<close>

theorem quickPlot_one_field:
  assumes "m_opMode st = QuickPlot" and "data \<noteq> []" and "length (split CHR '','' data) = 1"
  shows "events (readData env data st) = events st @ [frameChanged (quickPlotFrame env data)]
         \<and> m_groups (quickPlotFrame env data) =
             [\<lparr>m_groupId_g = 0, m_title_g = ''Quick Plot Data'', m_widget_g = ''datagrid'',
               m_datasets =
                 [\<lparr>m_groupId = 0, m_index = 1, m_title = ''Channel 1'',
                   m_value = fromUtf8 env data, m_widget = [], m_graph = False,
                   m_displayInOverview = False\<rparr>]\<rparr>,
              \<lparr>m_groupId_g = 2, m_title_g = ''Individual Plots'', m_widget_g = [],
               m_datasets =
                 [\<lparr>m_groupId = 2, m_index = 1, m_title = ''Channel 1'',
                   m_value = fromUtf8 env data, m_widget = [], m_graph = True,
                   m_displayInOverview = True\<rparr>]\<rparr>]"
proof -
  have "split CHR '','' data = [data]"
    using assms(3) by (simp add: split_def split_when_single)
  then have "m_groups (quickPlotFrame env data) =
      [datagridGroup [channelDataset env 1 data], plotsGroup [channelDataset env 1 data]]"
    by (simp add: groups_quickPlotFrame createDatasets_map Let_def)
  then show ?thesis
    using assms(1,2)
    by (simp add: readData_quick emit_def datagridGroup_def plotsGroup_def Group_new_def
        for_each_index_map channelDataset_def QString_number_1)
qed

lemma quickBuilder_mode: "m_opMode quickBuilder = QuickPlot"
  by (simp add: quickBuilder_def setOperationMode_def setStartSequence_def
      setFinishSequence_def setValue_def emit_def)

theorem quickPlot_one_field_witness:
  "m_opMode quickBuilder = QuickPlot
   \<and> length (split CHR '','' ''42'') = 1
   \<and> events (readData sampleEnv ''42'' quickBuilder) =
       events quickBuilder @ [frameChanged (quickPlotFrame sampleEnv ''42'')]
   \<and> map m_widget_g (m_groups (quickPlotFrame sampleEnv ''42'')) = [''datagrid'', []]
   \<and> map m_title_g (m_groups (quickPlotFrame sampleEnv ''42'')) =
       [''Quick Plot Data'', ''Individual Plots'']
   \<and> map m_displayInOverview (m_datasets (m_groups (quickPlotFrame sampleEnv ''42'') ! 1)) = [True]
   \<and> map m_value (m_datasets (m_groups (quickPlotFrame sampleEnv ''42'') ! 1)) = [''42'']"
proof -
  have data: "''42'' \<noteq> []" and one: "length (split CHR '','' ''42'') = 1"
    by (simp_all add: split_def)
  show ?thesis
    using quickPlot_one_field [OF quickBuilder_mode data one, of sampleEnv]
    by (simp add: quickBuilder_mode one sampleEnv_def)
qed

text \<open>
  C6. In the quick-plot mode, a message with more than one field (and fewer than
  \<open>2 ^ 31\<close>, the range of the counter) publishes a frame of exactly three groups, in the
  order data grid (id 0), multiplot (id 1), individual plots (id 2). Every group has one
  dataset per field; the dataset at position \<open>i\<close> (from 0) has index \<open>i + 1\<close> and the
  title \<^verbatim>\<open>Channel\<close> followed by that number. Every dataset of the individual plots has
  group id 2, is graphed, and is not shown in the overview.
\<close>

theorem quickPlot_many_fields:
  assumes "m_opMode st = QuickPlot" and "data \<noteq> []"
    and "1 < length (split CHR '','' data)" and "length (split CHR '','' data) < 2 ^ 31"
  shows "events (readData env data st) = events st @ [frameChanged (quickPlotFrame env data)]
         \<and> map m_groupId_g (m_groups (quickPlotFrame env data)) = [0, 1, 2]
         \<and> map m_widget_g (m_groups (quickPlotFrame env data)) = [''datagrid'', ''multiplot'', []]
         \<and> map m_title_g (m_groups (quickPlotFrame env data)) =
             [''Quick Plot Data'', ''Multiple Plots'', ''Individual Plots'']
         \<and> (\<forall>grp \<in> set (m_groups (quickPlotFrame env data)).
               length (m_datasets grp) = length (split CHR '','' data)
               \<and> (\<forall>i < length (split CHR '','' data).
                     m_index (m_datasets grp ! i) = int i + 1
                     \<and> m_title (m_datasets grp ! i) = ''Channel '' @ QString_number (int i + 1)))
         \<and> (\<forall>dataset \<in> set (m_datasets (m_groups (quickPlotFrame env data) ! 2)).
               m_groupId dataset = 2 \<and> m_graph dataset \<and> \<not> m_displayInOverview dataset)"
proof -
  define datasets where "datasets = createDatasets env (split CHR '','' data) 1 []"
  have len: "length datasets = length (split CHR '','' data)"
    by (simp add: datasets_def length_createDatasets)
  have groups: "m_groups (quickPlotFrame env data) =
      [datagridGroup datasets, multiplotGroup datasets, plotsGroup datasets]"
    using assms(3) by (simp add: groups_quickPlotFrame datasets_def [symmetric] len)
  have nth: "m_index (datasets ! i) = int i + 1
      \<and> m_title (datasets ! i) = ''Channel '' @ QString_number (int i + 1)"
    if "i < length (split CHR '','' data)" for i
    using that by (simp add: datasets_def nth_createDatasets channelDataset_def add.commute)
  have ev: "events (readData env data st) = events st @ [frameChanged (quickPlotFrame env data)]"
    using assms(1,2) by (simp add: readData_quick emit_def)
  have ids: "map m_groupId_g (m_groups (quickPlotFrame env data)) = [0, 1, 2]"
    by (simp add: groups datagridGroup_def multiplotGroup_def plotsGroup_def Group_new_def Let_def)
  have widgets: "map m_widget_g (m_groups (quickPlotFrame env data)) =
      [''datagrid'', ''multiplot'', []]"
    by (simp add: groups datagridGroup_def multiplotGroup_def plotsGroup_def Group_new_def Let_def)
  have titles: "map m_title_g (m_groups (quickPlotFrame env data)) =
      [''Quick Plot Data'', ''Multiple Plots'', ''Individual Plots'']"
    by (simp add: groups datagridGroup_def multiplotGroup_def plotsGroup_def Group_new_def Let_def)
  have each: "\<forall>grp \<in> set (m_groups (quickPlotFrame env data)).
      length (m_datasets grp) = length (split CHR '','' data)
      \<and> (\<forall>i < length (split CHR '','' data).
            m_index (m_datasets grp ! i) = int i + 1
            \<and> m_title (m_datasets grp ! i) = ''Channel '' @ QString_number (int i + 1))"
    using nth
    by (simp add: groups datasets_datagridGroup datasets_multiplotGroup datasets_plotsGroup len)
  have plots: "\<forall>dataset \<in> set (m_datasets (m_groups (quickPlotFrame env data) ! 2)).
      m_groupId dataset = 2 \<and> m_graph dataset \<and> \<not> m_displayInOverview dataset"
    using assms(3) by (auto simp: groups datasets_plotsGroup len)
  show ?thesis
    using ev ids widgets titles each plots by blast
qed

lemma QString_number_digits:
  "QString_number 1 = ''1''" "QString_number 2 = ''2''" "QString_number 3 = ''3''"
  by (simp_all add: QString_number_def number_nat.simps digit_def)

theorem quickPlot_many_fields_witness:
  "m_opMode quickBuilder = QuickPlot
   \<and> split CHR '','' ''1.5,7,-3'' = [''1.5'', ''7'', ''-3'']
   \<and> events (readData sampleEnv ''1.5,7,-3'' quickBuilder) =
       events quickBuilder @ [frameChanged (quickPlotFrame sampleEnv ''1.5,7,-3'')]
   \<and> map m_groupId_g (m_groups (quickPlotFrame sampleEnv ''1.5,7,-3'')) = [0, 1, 2]
   \<and> map m_widget_g (m_groups (quickPlotFrame sampleEnv ''1.5,7,-3'')) =
       [''datagrid'', ''multiplot'', []]
   \<and> map (\<lambda>grp. map m_index (m_datasets grp)) (m_groups (quickPlotFrame sampleEnv ''1.5,7,-3''))
       = [[1, 2, 3], [1, 2, 3], [1, 2, 3]]
   \<and> map m_title (m_datasets (m_groups (quickPlotFrame sampleEnv ''1.5,7,-3'') ! 2)) =
       [''Channel 1'', ''Channel 2'', ''Channel 3'']
   \<and> map m_groupId (m_datasets (m_groups (quickPlotFrame sampleEnv ''1.5,7,-3'') ! 2)) = [2, 2, 2]
   \<and> map m_graph (m_datasets (m_groups (quickPlotFrame sampleEnv ''1.5,7,-3'') ! 2)) =
       [True, True, True]
   \<and> map m_displayInOverview (m_datasets (m_groups (quickPlotFrame sampleEnv ''1.5,7,-3'') ! 2)) =
       [False, False, False]"
proof -
  have data: "''1.5,7,-3'' \<noteq> []"
    and flds: "split CHR '','' ''1.5,7,-3'' = [''1.5'', ''7'', ''-3'']"
    by (simp_all add: split_def)
  have many: "1 < length (split CHR '','' ''1.5,7,-3'')"
    and bound: "length (split CHR '','' ''1.5,7,-3'') < 2 ^ 31"
    by (simp_all add: flds)
  have frame: "m_groups (quickPlotFrame sampleEnv ''1.5,7,-3'') =
      [datagridGroup (createDatasets sampleEnv [''1.5'', ''7'', ''-3''] 1 []),
       multiplotGroup (createDatasets sampleEnv [''1.5'', ''7'', ''-3''] 1 []),
       plotsGroup (createDatasets sampleEnv [''1.5'', ''7'', ''-3''] 1 [])]"
    by (simp add: groups_quickPlotFrame flds Let_def)
  show ?thesis
    using quickPlot_many_fields [OF quickBuilder_mode data many bound, of sampleEnv]
    by (simp add: quickBuilder_mode flds frame datasets_datagridGroup datasets_multiplotGroup
        datasets_plotsGroup QString_number_digits)
qed

end
